theory Spec2Isabelle
  imports Complex_Main
begin

section \<open>The corridor compositor of app.py\<close>

text \<open>
  A shallow embedding of the \<^verbatim>\<open>merge\<close> view of \<^verbatim>\<open>src/app.py\<close>. Python floats are
  idealised as reals and Python ints are \<^typ>\<open>int\<close>. The drawing library (Pillow) is not
  part of the repository: its pixel arithmetic is written out below, the rasteriser's
  coverage and the resampling filter are parameters of the model.
\<close>

subsection \<open>Python numbers\<close>

text \<open>\<^verbatim>\<open>int(x)\<close> on a float truncates toward zero.\<close>

definition py_int :: "real \<Rightarrow> int" where
  "py_int x = (if 0 \<le> x then \<lfloor>x\<rfloor> else \<lceil>x\<rceil>)"

text \<open>\<^verbatim>\<open>round(x)\<close> rounds to the nearest integer, a tie to the even neighbour.\<close>

definition py_round :: "real \<Rightarrow> int" where
  "py_round x =
     (let f = \<lfloor>x\<rfloor>; d = x - of_int f
      in if d < 1 / 2 then f else if 1 / 2 < d then f + 1 else if even f then f else f + 1)"

text \<open>\<^verbatim>\<open>math.hypot\<close>.\<close>

definition hypot :: "real \<Rightarrow> real \<Rightarrow> real" where
  "hypot x y = sqrt (x * x + y * y)"

subsection \<open>Parameters (lines 103--113)\<close>

definition scale :: int where
  "scale = 2"

definition stroke_w2 :: "int \<Rightarrow> int" where
  "stroke_w2 corridor_px = max 1 (corridor_px * 2 * scale)"

definition EDGE_THICKNESS_PX :: "int \<Rightarrow> int" where
  "EDGE_THICKNESS_PX corridor_px = max 2 (py_int (0.5 * of_int corridor_px))"

definition edge_w2 :: "int \<Rightarrow> int" where
  "edge_w2 corridor_px = max 1 (EDGE_THICKNESS_PX corridor_px * 2 * scale)"

type_synonym rgb = "nat \<times> nat \<times> nat"
type_synonym rgba = "nat \<times> nat \<times> nat \<times> nat"

definition PURPLE_RGBA_OPAQUE :: rgba where
  "PURPLE_RGBA_OPAQUE = (128, 0, 255, 255)"

definition PURPLE_RGBA_MARKER :: "real \<Rightarrow> rgba" where
  "PURPLE_RGBA_MARKER marker_alpha = (128, 0, 255, nat (py_round (marker_alpha * 255)))"

definition r_in :: "int \<Rightarrow> int" where
  "r_in corridor_px = stroke_w2 corridor_px div 2"

definition outer_w2 :: "int \<Rightarrow> int" where
  "outer_w2 corridor_px = stroke_w2 corridor_px + edge_w2 corridor_px"

definition r_out :: "int \<Rightarrow> int" where
  "r_out corridor_px = outer_w2 corridor_px div 2"

subsection \<open>The request body and Python's conversions\<close>

text \<open>
  The value \<^verbatim>\<open>request.get_json(silent=True)\<close> returns. A JSON object is an association
  list in which a later binding of a key replaces an earlier one; Python's \<^verbatim>\<open>None\<close> is
  \<open>JNull\<close>. JSON numbers are finite.
\<close>

datatype json =
  JNull | JBool bool | JInt int | JFloat real | JStr string
  | JArr "json list" | JObj "(string \<times> json) list"

datatype py_exc =
  ValueError | TypeError | KeyError | IndexError | AttributeError | OverflowError
  | UnidentifiedImageError | OSError

text \<open>Truth value of a Python object, as \<^verbatim>\<open>not\<close> and \<^verbatim>\<open>or\<close> test it.\<close>

fun truthy :: "json \<Rightarrow> bool" where
  "truthy JNull = False"
| "truthy (JBool b) = b"
| "truthy (JInt n) = (n \<noteq> 0)"
| "truthy (JFloat x) = (x \<noteq> 0)"
| "truthy (JStr s) = (s \<noteq> [])"
| "truthy (JArr xs) = (xs \<noteq> [])"
| "truthy (JObj kvs) = (kvs \<noteq> [])"

text \<open>\<^verbatim>\<open>data.get(key)\<close>: \<^verbatim>\<open>None\<close> for a missing key.\<close>

definition dict_get :: "(string \<times> json) list \<Rightarrow> string \<Rightarrow> json" where
  "dict_get kvs key = (case map_of (rev kvs) key of None \<Rightarrow> JNull | Some v \<Rightarrow> v)"

text \<open>\<^verbatim>\<open>v or d\<close>.\<close>

definition py_or :: "json \<Rightarrow> json \<Rightarrow> json" where
  "py_or v d = (if truthy v then v else d)"

text \<open>
  A Python float that need not be finite: \<^verbatim>\<open>float("nan")\<close> and \<^verbatim>\<open>float("inf")\<close> do not
  raise.
\<close>

datatype py_float = Finite real | PosInf | NegInf | NaN

text \<open>
  \<^verbatim>\<open>max(0.0, min(1.0, x))\<close> (lines 85 and 88). Python's \<^verbatim>\<open>min\<close> and \<^verbatim>\<open>max\<close> keep their
  first argument unless the second compares smaller (greater), and every comparison with
  NaN is false.
\<close>

fun clamp01 :: "py_float \<Rightarrow> real" where
  "clamp01 (Finite x) = max 0 (min 1 x)"
| "clamp01 PosInf = 1"
| "clamp01 NegInf = 0"
| "clamp01 NaN = 1"

text \<open>
  \<^verbatim>\<open>int(v)\<close> and \<^verbatim>\<open>float(v)\<close>. How Python reads a number out of a string is a parameter
  (\<open>None\<close> where it raises \<^verbatim>\<open>ValueError\<close>). An int too large for a float raises
  \<^verbatim>\<open>OverflowError\<close>, in \<^verbatim>\<open>float(n)\<close> and in a product such as \<^verbatim>\<open>0.5 * n\<close>.
\<close>

fun int_of :: "(string \<Rightarrow> int option) \<Rightarrow> json \<Rightarrow> py_exc + int" where
  "int_of parse (JInt n) = Inr n"
| "int_of parse (JBool b) = Inr (if b then 1 else 0)"
| "int_of parse (JFloat x) = Inr (py_int x)"
| "int_of parse (JStr s) = (case parse s of None \<Rightarrow> Inl ValueError | Some n \<Rightarrow> Inr n)"
| "int_of parse JNull = Inl TypeError"
| "int_of parse (JArr xs) = Inl TypeError"
| "int_of parse (JObj kvs) = Inl TypeError"

definition float_range :: "int \<Rightarrow> bool" where
  "float_range n = (\<bar>n\<bar> < 2 ^ 1024 - 2 ^ 970)"

fun float_of :: "(string \<Rightarrow> py_float option) \<Rightarrow> json \<Rightarrow> py_exc + py_float" where
  "float_of parse (JInt n) =
     (if float_range n then Inr (Finite (of_int n)) else Inl OverflowError)"
| "float_of parse (JBool b) = Inr (Finite (if b then 1 else 0))"
| "float_of parse (JFloat x) = Inr (Finite x)"
| "float_of parse (JStr s) = (case parse s of None \<Rightarrow> Inl ValueError | Some x \<Rightarrow> Inr x)"
| "float_of parse JNull = Inl TypeError"
| "float_of parse (JArr xs) = Inl TypeError"
| "float_of parse (JObj kvs) = Inl TypeError"

text \<open>
  \<^verbatim>\<open>len(points)\<close> and the iteration over \<^verbatim>\<open>points\<close>: the elements of a list, the
  characters of a string, the keys of a dict; anything else raises \<^verbatim>\<open>TypeError\<close>.
\<close>

fun py_seq :: "json \<Rightarrow> py_exc + json list" where
  "py_seq (JArr xs) = Inr xs"
| "py_seq (JStr s) = Inr (map (\<lambda>c. JStr [c]) s)"
| "py_seq (JObj kvs) = Inr (map JStr (remdups (map fst kvs)))"
| "py_seq JNull = Inl TypeError"
| "py_seq (JBool b) = Inl TypeError"
| "py_seq (JInt n) = Inl TypeError"
| "py_seq (JFloat x) = Inl TypeError"

text \<open>\<^verbatim>\<open>p[key]\<close> with a string key.\<close>

fun subscript :: "json \<Rightarrow> string \<Rightarrow> py_exc + json" where
  "subscript (JObj kvs) key =
     (case map_of (rev kvs) key of None \<Rightarrow> Inl KeyError | Some v \<Rightarrow> Inr v)"
| "subscript v key = Inl TypeError"

text \<open>
  A coordinate \<^verbatim>\<open>p["x"]\<close> as the drawing calls need it: a number. \<^verbatim>\<open>None\<close> and a dict
  raise \<^verbatim>\<open>TypeError\<close> at the multiplication by \<^verbatim>\<open>scale\<close> (line 118); a string or a
  list survives the multiplication and makes the first \<^verbatim>\<open>ImageDraw.line\<close> call raise
  (line 124), before anything is drawn. Both reach the handler of line 222, and the model
  raises \<^verbatim>\<open>TypeError\<close> for both at line 118.
\<close>

fun coord :: "json \<Rightarrow> py_exc + real" where
  "coord (JInt n) = Inr (of_int n)"
| "coord (JFloat x) = Inr x"
| "coord (JBool b) = Inr (if b then 1 else 0)"
| "coord v = Inl TypeError"

type_synonym point = "real \<times> real"

definition point_of :: "json \<Rightarrow> py_exc + point" where
  "point_of p =
     (case subscript p ''x'' of Inl e \<Rightarrow> Inl e | Inr xv \<Rightarrow>
      (case coord xv of Inl e \<Rightarrow> Inl e | Inr x \<Rightarrow>
       (case subscript p ''y'' of Inl e \<Rightarrow> Inl e | Inr yv \<Rightarrow>
        (case coord yv of Inl e \<Rightarrow> Inl e | Inr y \<Rightarrow> Inr (x, y)))))"

text \<open>The comprehension of line 118 stops at the first entry that raises.\<close>

fun points_of :: "json list \<Rightarrow> py_exc + point list" where
  "points_of [] = Inr []"
| "points_of (p # ps) =
     (case point_of p of Inl e \<Rightarrow> Inl e | Inr q \<Rightarrow>
      (case points_of ps of Inl e \<Rightarrow> Inl e | Inr qs \<Rightarrow> Inr (q # qs)))"

definition pts2 :: "point list \<Rightarrow> point list" where
  "pts2 points = map (\<lambda>p. (fst p * of_int scale, snd p * of_int scale)) points"

subsection \<open>Marker geometry (lines 170--197)\<close>

text \<open>
  \<^verbatim>\<open>norm = math.hypot(vx, vy) or 1.0\<close>: a zero norm is replaced by 1, then
  \<^verbatim>\<open>ux, uy = vx / norm, vy / norm\<close>.
\<close>

definition direction :: "point \<Rightarrow> point \<Rightarrow> point" where
  "direction p0 p1 =
     (let vx = fst p1 - fst p0; vy = snd p1 - snd p0;
          norm = (if hypot vx vy = 0 then 1 else hypot vx vy)
      in (vx / norm, vy / norm))"

text \<open>The perpendicular \<^verbatim>\<open>px_, py_\<close> of the source is \<open>perp_x, perp_y\<close> here.\<close>

definition tri_height :: "int \<Rightarrow> real" where
  "tri_height corridor_px = of_int corridor_px * 1.6"

definition tri_base :: "int \<Rightarrow> real" where
  "tri_base corridor_px = of_int corridor_px * 1.6"

definition tip :: "point \<Rightarrow> point \<Rightarrow> int \<Rightarrow> point" where
  "tip p0 p1 corridor_px =
     (let ux = fst (direction p0 p1); uy = snd (direction p0 p1)
      in (fst p0 + ux * tri_height corridor_px, snd p0 + uy * tri_height corridor_px))"

definition left :: "point \<Rightarrow> point \<Rightarrow> int \<Rightarrow> point" where
  "left p0 p1 corridor_px =
     (let ux = fst (direction p0 p1); uy = snd (direction p0 p1);
          perp_x = - uy; perp_y = ux
      in (fst p0 + perp_x * (tri_base corridor_px / 2),
          snd p0 + perp_y * (tri_base corridor_px / 2)))"

definition right :: "point \<Rightarrow> point \<Rightarrow> int \<Rightarrow> point" where
  "right p0 p1 corridor_px =
     (let ux = fst (direction p0 p1); uy = snd (direction p0 p1);
          perp_x = - uy; perp_y = ux
      in (fst p0 - perp_x * (tri_base corridor_px / 2),
          snd p0 - perp_y * (tri_base corridor_px / 2)))"

definition triangle_path :: "point \<Rightarrow> point \<Rightarrow> int \<Rightarrow> point list" where
  "triangle_path p0 p1 corridor_px =
     [tip p0 p1 corridor_px, left p0 p1 corridor_px, right p0 p1 corridor_px,
      tip p0 p1 corridor_px]"

definition MARKER_STROKE_PX :: "int \<Rightarrow> int" where
  "MARKER_STROKE_PX corridor_px = max 2 (py_int (0.6 * of_int corridor_px))"

text \<open>
  The expression \<^verbatim>\<open>MARKER_STROKE_PX//3\<close>, passed as \<^verbatim>\<open>width=\<close> to the triangle's
  \<^verbatim>\<open>line\<close> (line 189) and to the circle's \<^verbatim>\<open>ellipse\<close> (line 197).
\<close>

definition marker_width :: "int \<Rightarrow> int" where
  "marker_width corridor_px = MARKER_STROKE_PX corridor_px div 3"

definition end_r :: "int \<Rightarrow> int" where
  "end_r corridor_px = py_int (of_int corridor_px * 0.9)"

type_synonym box = "real \<times> real \<times> real \<times> real"

definition bbox :: "point \<Rightarrow> int \<Rightarrow> box" where
  "bbox pe corridor_px =
     (fst pe - of_int (end_r corridor_px), snd pe - of_int (end_r corridor_px),
      fst pe + of_int (end_r corridor_px), snd pe + of_int (end_r corridor_px))"

subsection \<open>Pillow's pixel arithmetic\<close>

text \<open>
  \<^verbatim>\<open>Image.blend(im1, im2, alpha)\<close> on one 8-bit channel: a copy of the first image at
  \<open>alpha = 0\<close>, of the second at \<open>alpha = 1\<close>, otherwise
  \<^verbatim>\<open>(UINT8)(in1 + alpha * (in2 - in1))\<close>.
\<close>

definition blend_channel :: "nat \<Rightarrow> nat \<Rightarrow> real \<Rightarrow> nat" where
  "blend_channel in1 in2 alpha =
     (if alpha = 0 then in1 else if alpha = 1 then in2
      else nat (py_int (real in1 + alpha * (real in2 - real in1))) mod 256)"

definition blend_rgb :: "rgb \<Rightarrow> rgb \<Rightarrow> real \<Rightarrow> rgb" where
  "blend_rgb p q alpha =
     (case (p, q) of ((r1, g1, b1), (r2, g2, b2)) \<Rightarrow>
        (blend_channel r1 r2 alpha, blend_channel g1 g2 alpha, blend_channel b1 b2 alpha))"

text \<open>The outside fade of one pixel (lines 137--138): the blend toward white.\<close>

definition white :: rgb where
  "white = (255, 255, 255)"

definition outside_px :: "rgb \<Rightarrow> real \<Rightarrow> rgb" where
  "outside_px base_px outside_fade = blend_rgb base_px white outside_fade"

subsection \<open>Images\<close>

text \<open>
  An image is its size and its pixels, addressed by column and row. Mode \<^verbatim>\<open>L\<close> has one
  8-bit channel per pixel, \<^verbatim>\<open>RGB\<close> three, \<^verbatim>\<open>RGBA\<close> four.
\<close>

record 'p img =
  width :: nat
  height :: nat
  px :: "nat \<Rightarrow> nat \<Rightarrow> 'p"

datatype picture = Pic_L "nat img" | Pic_RGB "rgb img" | Pic_RGBA "rgba img"

text \<open>\<^verbatim>\<open>Image.new(mode, (w, h), color)\<close>.\<close>

definition new_img :: "nat \<Rightarrow> nat \<Rightarrow> 'p \<Rightarrow> 'p img" where
  "new_img w h color = \<lparr>width = w, height = h, px = (\<lambda>x y. color)\<rparr>"

text \<open>\<^verbatim>\<open>convert("RGB")\<close>: a grey value fills the three channels, an alpha channel is dropped.\<close>

definition drop_alpha :: "rgba \<Rightarrow> rgb" where
  "drop_alpha p = (case p of (r, g, b, a) \<Rightarrow> (r, g, b))"

fun convert_RGB :: "picture \<Rightarrow> rgb img" where
  "convert_RGB (Pic_L im) =
     \<lparr>width = width im, height = height im, px = (\<lambda>x y. (px im x y, px im x y, px im x y))\<rparr>"
| "convert_RGB (Pic_RGB im) = \<lparr>width = width im, height = height im, px = px im\<rparr>"
| "convert_RGB (Pic_RGBA im) =
     \<lparr>width = width im, height = height im, px = (\<lambda>x y. drop_alpha (px im x y))\<rparr>"

text \<open>\<^verbatim>\<open>convert("RGBA")\<close> of an \<^verbatim>\<open>RGB\<close> image: every pixel opaque.\<close>

definition opaque :: "rgb \<Rightarrow> rgba" where
  "opaque p = (case p of (r, g, b) \<Rightarrow> (r, g, b, 255))"

definition convert_RGBA :: "rgb img \<Rightarrow> rgba img" where
  "convert_RGBA im = \<lparr>width = width im, height = height im, px = (\<lambda>x y. opaque (px im x y))\<rparr>"

definition same_size :: "'p img \<Rightarrow> 'q img \<Rightarrow> bool" where
  "same_size a b = (width a = width b \<and> height a = height b)"

text \<open>
  \<^verbatim>\<open>Image.blend\<close>: \<^verbatim>\<open>ValueError\<close> when the two images do not match, else the blend of
  every pixel.
\<close>

definition blend :: "rgb img \<Rightarrow> rgb img \<Rightarrow> real \<Rightarrow> py_exc + rgb img" where
  "blend im1 im2 alpha =
     (if same_size im1 im2
      then Inr \<lparr>width = width im1, height = height im1,
                px = (\<lambda>x y. blend_rgb (px im1 x y) (px im2 x y) alpha)\<rparr>
      else Inl ValueError)"

text \<open>
  Pillow's 8-bit mixing macros: \<^verbatim>\<open>SHIFTFORDIV255(a) = ((a >> 8) + a) >> 8\<close>,
  \<^verbatim>\<open>DIV255(a) = SHIFTFORDIV255(a + 128)\<close> and
  \<^verbatim>\<open>BLEND8(mask, in1, in2) = DIV255(in1 * (255 - mask) + in2 * mask)\<close>, stored in a byte.
\<close>

definition SHIFTFORDIV255 :: "nat \<Rightarrow> nat" where
  "SHIFTFORDIV255 a = (a div 256 + a) div 256"

definition DIV255 :: "nat \<Rightarrow> nat" where
  "DIV255 a = SHIFTFORDIV255 (a + 128)"

definition BLEND8 :: "nat \<Rightarrow> nat \<Rightarrow> nat \<Rightarrow> nat" where
  "BLEND8 m in1 in2 = DIV255 (in1 * (255 - m) + in2 * m) mod 256"

text \<open>
  \<^verbatim>\<open>im.paste(src, mask=mask)\<close> on one pixel: every channel of the target is mixed with
  the source's by the mask value.
\<close>

definition paste_rgb :: "rgb \<Rightarrow> rgb \<Rightarrow> nat \<Rightarrow> rgb" where
  "paste_rgb target src m =
     (case (target, src) of ((r1, g1, b1), (r2, g2, b2)) \<Rightarrow>
        (BLEND8 m r1 r2, BLEND8 m g1 g2, BLEND8 m b1 b2))"

definition paste_rgba :: "rgba \<Rightarrow> rgba \<Rightarrow> nat \<Rightarrow> rgba" where
  "paste_rgba target src m =
     (case (target, src) of ((r1, g1, b1, a1), (r2, g2, b2, a2)) \<Rightarrow>
        (BLEND8 m r1 r2, BLEND8 m g1 g2, BLEND8 m b1 b2, BLEND8 m a1 a2))"

text \<open>
  \<^verbatim>\<open>target.paste(src, mask=mask)\<close> at the upper left corner: \<^verbatim>\<open>ValueError\<close> when source
  and mask do not match, else the pixels inside the source's box are mixed.
\<close>

definition paste :: "rgb img \<Rightarrow> rgb img \<Rightarrow> nat img \<Rightarrow> py_exc + rgb img" where
  "paste target src m =
     (if same_size src m
      then Inr \<lparr>width = width target, height = height target,
                px = (\<lambda>x y. if x < width src \<and> y < height src
                             then paste_rgb (px target x y) (px src x y) (px m x y)
                             else px target x y)\<rparr>
      else Inl ValueError)"

text \<open>
  \<^verbatim>\<open>Image.composite(image1, image2, mask)\<close> is a copy of \<^verbatim>\<open>image2\<close> with \<^verbatim>\<open>image1\<close>
  pasted through the mask.
\<close>

definition composite :: "rgba img \<Rightarrow> rgba img \<Rightarrow> nat img \<Rightarrow> py_exc + rgba img" where
  "composite image1 image2 m =
     (if same_size image1 m
      then Inr \<lparr>width = width image2, height = height image2,
                px = (\<lambda>x y. if x < width image1 \<and> y < height image1
                             then paste_rgba (px image2 x y) (px image1 x y) (px m x y)
                             else px image2 x y)\<rparr>
      else Inl ValueError)"

text \<open>
  \<^verbatim>\<open>Image.alpha_composite(dst, src)\<close> on one pixel: the destination where the source is
  fully transparent, else Pillow's integer form of the ``over'' operator (7 bits of
  precision).
\<close>

definition alpha_composite_px :: "rgba \<Rightarrow> rgba \<Rightarrow> rgba" where
  "alpha_composite_px dst src =
     (case (dst, src) of ((dr, dg, db, da), (sr, sg, sb, sa)) \<Rightarrow>
        if sa = 0 then dst
        else
          (let bl = da * (255 - sa);
               outa255 = sa * 255 + bl;
               coef1 = sa * 255 * 255 * 128 div outa255;
               coef2 = 255 * 128 - coef1;
               mix = (\<lambda>s d. SHIFTFORDIV255 (s * coef1 + d * coef2 + 128 * 128) div 128 mod 256)
           in (mix sr dr, mix sg dg, mix sb db, SHIFTFORDIV255 (outa255 + 128) mod 256)))"

definition alpha_composite :: "rgba img \<Rightarrow> rgba img \<Rightarrow> py_exc + rgba img" where
  "alpha_composite im1 im2 =
     (if same_size im1 im2
      then Inr \<lparr>width = width im1, height = height im1,
                px = (\<lambda>x y. alpha_composite_px (px im1 x y) (px im2 x y))\<rparr>
      else Inl ValueError)"

subsection \<open>The drawing backend\<close>

text \<open>
  What the model takes from Pillow's rasteriser and resampler. \<open>line_cover joint xy w\<close>
  holds of the pixels \<^verbatim>\<open>ImageDraw.line(xy, width=w)\<close> touches (\<open>joint\<close>: called with
  \<^verbatim>\<open>joint="curve"\<close>), \<open>ellipse_cover box\<close> of those a filled \<^verbatim>\<open>ellipse(box)\<close> touches,
  \<open>outline_cover box w\<close> of those an outlined ellipse touches (\<open>w = None\<close>: no
  \<^verbatim>\<open>width=\<close> given), and \<open>resample im w h x y\<close> is the value at \<open>(x, y)\<close> of
  \<^verbatim>\<open>im.resize((w, h), Image.LANCZOS)\<close>. \<open>joint_ok\<close> and \<open>width_ok\<close> say whether the installed
  Pillow accepts the keywords \<^verbatim>\<open>joint=\<close> of \<^verbatim>\<open>line\<close> and \<^verbatim>\<open>width=\<close> of \<^verbatim>\<open>ellipse\<close>; where
  it does not the call raises \<^verbatim>\<open>TypeError\<close> before it draws.
\<close>

record backend =
  joint_ok :: bool
  width_ok :: bool
  line_cover :: "bool \<Rightarrow> point list \<Rightarrow> int \<Rightarrow> nat \<Rightarrow> nat \<Rightarrow> bool"
  ellipse_cover :: "box \<Rightarrow> nat \<Rightarrow> nat \<Rightarrow> bool"
  outline_cover :: "box \<Rightarrow> int option \<Rightarrow> nat \<Rightarrow> nat \<Rightarrow> bool"
  resample :: "nat img \<Rightarrow> nat \<Rightarrow> nat \<Rightarrow> nat \<Rightarrow> nat \<Rightarrow> nat"

text \<open>
  A drawing call on an \<^verbatim>\<open>L\<close> or \<^verbatim>\<open>RGBA\<close> image stores the ink in every pixel it
  touches, all channels at once, and leaves the others as they are.
\<close>

definition draw_on :: "'p img \<Rightarrow> (nat \<Rightarrow> nat \<Rightarrow> bool) \<Rightarrow> 'p \<Rightarrow> 'p img" where
  "draw_on im cover ink =
     \<lparr>width = width im, height = height im,
      px = (\<lambda>x y. if cover x y then ink else px im x y)\<rparr>"

text \<open>
  \<^verbatim>\<open>try: d.line(xy, fill, width, joint="curve")\<close>
  \<^verbatim>\<open>except TypeError: d.line(xy, fill, width)\<close> (lines 123--126, 147--150, 157--160).
\<close>

definition try_line :: "backend \<Rightarrow> 'p img \<Rightarrow> point list \<Rightarrow> 'p \<Rightarrow> int \<Rightarrow> 'p img" where
  "try_line bk im xy fill w =
     (if joint_ok bk then draw_on im (line_cover bk True xy w) fill
      else draw_on im (line_cover bk False xy w) fill)"

text \<open>\<^verbatim>\<open>[x - r, y - r, x + r, y + r]\<close>.\<close>

definition disc_box :: "point \<Rightarrow> real \<Rightarrow> box" where
  "disc_box c r = (fst c - r, snd c - r, fst c + r, snd c + r)"

text \<open>\<^verbatim>\<open>im.resize((w, h), Image.LANCZOS)\<close> of an \<^verbatim>\<open>L\<close> image: 8-bit values.\<close>

definition resize :: "backend \<Rightarrow> nat img \<Rightarrow> nat \<Rightarrow> nat \<Rightarrow> nat img" where
  "resize bk im w h =
     \<lparr>width = w, height = h, px = (\<lambda>x y. min 255 (resample bk im w h x y))\<rparr>"

subsection \<open>The layers of the composite (lines 120--209)\<close>

text \<open>Stage 1: the corridor drawn at twice the size, stroke and two end discs.\<close>

definition mask2 :: "backend \<Rightarrow> nat \<Rightarrow> nat \<Rightarrow> point list \<Rightarrow> int \<Rightarrow> nat img" where
  "mask2 bk W2 H2 xy corridor_px =
     (let m0 = new_img W2 H2 0;
          m1 = try_line bk m0 xy 255 (stroke_w2 corridor_px);
          m2 = draw_on m1 (ellipse_cover bk (disc_box (hd xy) (of_int (r_in corridor_px)))) 255
      in draw_on m2 (ellipse_cover bk (disc_box (last xy) (of_int (r_in corridor_px)))) 255)"

definition corridor_mask :: "backend \<Rightarrow> nat \<Rightarrow> nat \<Rightarrow> point list \<Rightarrow> int \<Rightarrow> nat img" where
  "corridor_mask bk w h points corridor_px =
     resize bk (mask2 bk (w * nat scale) (h * nat scale) (pts2 points) corridor_px) w h"

text \<open>Stage 2: the base faded toward white, the base pasted back through the mask.\<close>

definition outside :: "rgb img \<Rightarrow> real \<Rightarrow> py_exc + rgb img" where
  "outside base outside_fade =
     blend base (new_img (width base) (height base) white) outside_fade"

definition fade_and_restore :: "rgb img \<Rightarrow> nat img \<Rightarrow> real \<Rightarrow> py_exc + rgb img" where
  "fade_and_restore base m outside_fade =
     (case outside base outside_fade of
        Inl e \<Rightarrow> Inl e
      | Inr out \<Rightarrow> paste out base m)"

text \<open>
  Stage 3: the wider stroke and discs, the corridor carved out of them with ink 0, the
  result downsampled and used as the mask of a solid purple layer.
\<close>

definition ring2 :: "backend \<Rightarrow> nat \<Rightarrow> nat \<Rightarrow> point list \<Rightarrow> int \<Rightarrow> nat img" where
  "ring2 bk W2 H2 xy corridor_px =
     (let r0 = new_img W2 H2 0;
          r1 = try_line bk r0 xy 255 (outer_w2 corridor_px);
          r2 = draw_on r1 (ellipse_cover bk (disc_box (hd xy) (of_int (r_out corridor_px)))) 255;
          r3 = draw_on r2 (ellipse_cover bk (disc_box (last xy) (of_int (r_out corridor_px)))) 255;
          r4 = try_line bk r3 xy 0 (stroke_w2 corridor_px);
          r5 = draw_on r4 (ellipse_cover bk (disc_box (hd xy) (of_int (r_in corridor_px)))) 0
      in draw_on r5 (ellipse_cover bk (disc_box (last xy) (of_int (r_in corridor_px)))) 0)"

definition ring_mask :: "backend \<Rightarrow> nat \<Rightarrow> nat \<Rightarrow> point list \<Rightarrow> int \<Rightarrow> nat img" where
  "ring_mask bk w h points corridor_px =
     resize bk (ring2 bk (w * nat scale) (h * nat scale) (pts2 points) corridor_px) w h"

definition purple_ring :: "nat \<Rightarrow> nat \<Rightarrow> nat img \<Rightarrow> py_exc + rgba img" where
  "purple_ring w h m =
     composite (new_img w h PURPLE_RGBA_OPAQUE) (new_img w h (0, 0, 0, 0)) m"

text \<open>
  Stage 4: the triangle and the circle drawn on the purple layer with the marker ink. Where
  \<^verbatim>\<open>joint=\<close> is refused the triangle is drawn \<^verbatim>\<open>MARKER_STROKE_PX\<close> wide; where \<^verbatim>\<open>width=\<close>
  is refused the circle is drawn \<^verbatim>\<open>MARKER_STROKE_PX\<close> times, each box grown by \<^verbatim>\<open>k / 2\<close>.
\<close>

definition grow :: "box \<Rightarrow> real \<Rightarrow> box" where
  "grow b inset = (case b of (x0, y0, x1, y1) \<Rightarrow> (x0 - inset, y0 - inset, x1 + inset, y1 + inset))"

definition draw_triangle :: "backend \<Rightarrow> rgba img \<Rightarrow> point \<Rightarrow> point \<Rightarrow> int \<Rightarrow> real \<Rightarrow> rgba img" where
  "draw_triangle bk layer p0 p1 corridor_px marker_alpha =
     (if joint_ok bk
      then draw_on layer (line_cover bk True (triangle_path p0 p1 corridor_px) (marker_width corridor_px))
             (PURPLE_RGBA_MARKER marker_alpha)
      else draw_on layer (line_cover bk False (triangle_path p0 p1 corridor_px) (MARKER_STROKE_PX corridor_px))
             (PURPLE_RGBA_MARKER marker_alpha))"

definition draw_circle :: "backend \<Rightarrow> rgba img \<Rightarrow> point \<Rightarrow> int \<Rightarrow> real \<Rightarrow> rgba img" where
  "draw_circle bk layer pe corridor_px marker_alpha =
     (if width_ok bk
      then draw_on layer (outline_cover bk (bbox pe corridor_px) (Some (marker_width corridor_px)))
             (PURPLE_RGBA_MARKER marker_alpha)
      else fold (\<lambda>k im. draw_on im (outline_cover bk (grow (bbox pe corridor_px) (real k / 2)) None)
                          (PURPLE_RGBA_MARKER marker_alpha))
             [0..<nat (MARKER_STROKE_PX corridor_px)] layer)"

definition draw_markers ::
  "backend \<Rightarrow> rgba img \<Rightarrow> point \<Rightarrow> point \<Rightarrow> point \<Rightarrow> int \<Rightarrow> real \<Rightarrow> rgba img" where
  "draw_markers bk layer p0 p1 pe corridor_px marker_alpha =
     draw_circle bk (draw_triangle bk layer p0 p1 corridor_px marker_alpha) pe corridor_px
       marker_alpha"

text \<open>
  The body of the \<^verbatim>\<open>try\<close> from stage 1 on, for a path \<open>p0, p1, rest\<close>: the image or the
  exception, with the stages that ran to their end (the numbered sections of the source).
\<close>

datatype stage = Load_base | Corridor_mask | Outside_fade | Edge_ring | Markers | Composite | Return_PNG

definition render ::
  "backend \<Rightarrow> rgb img \<Rightarrow> point \<Rightarrow> point \<Rightarrow> point list \<Rightarrow> int \<Rightarrow> real \<Rightarrow> real
   \<Rightarrow> (py_exc + rgba img) \<times> stage list" where
  "render bk base p0 p1 rest corridor_px outside_fade marker_alpha =
     (let points = p0 # p1 # rest; w = width base; h = height base
      in case fade_and_restore base (corridor_mask bk w h points corridor_px) outside_fade of
           Inl e \<Rightarrow> (Inl e, [Corridor_mask])
         | Inr out \<Rightarrow>
             (case purple_ring w h (ring_mask bk w h points corridor_px) of
                Inl e \<Rightarrow> (Inl e, [Corridor_mask, Outside_fade])
              | Inr purple_layer \<Rightarrow>
                  (case alpha_composite (convert_RGBA out)
                          (draw_markers bk purple_layer p0 p1 (last points) corridor_px marker_alpha) of
                     Inl e \<Rightarrow> (Inl e, [Corridor_mask, Outside_fade, Edge_ring, Markers])
                   | Inr out_final \<Rightarrow>
                       (Inr out_final,
                        [Corridor_mask, Outside_fade, Edge_ring, Markers, Composite, Return_PNG]))))"

subsection \<open>The view (lines 58--223)\<close>

text \<open>
  What the view needs from outside: Python's reading of numbers out of strings, the upload
  directory (\<open>None\<close>: no such path; \<open>Inl e\<close>: \<^verbatim>\<open>Image.open\<close> or \<^verbatim>\<open>convert\<close> raises \<open>e\<close>),
  and the drawing backend.
\<close>

record env =
  str_to_int :: "string \<Rightarrow> int option"
  str_to_float :: "string \<Rightarrow> py_float option"
  uploads :: "string \<Rightarrow> (py_exc + picture) option"
  pillow :: backend

text \<open>
  The error texts: \<^verbatim>\<open>invalid JSON\<close>, \<^verbatim>\<open>missing image_id, points, or corridor_px\<close>,
  \<^verbatim>\<open>image not found\<close>, \<^verbatim>\<open>need at least 2 points\<close> and \<^verbatim>\<open>merge failed: {e}\<close>. A reply is
  a JSON error with its status, the PNG file (status 200), or an exception that leaves the
  view, which the framework answers with status 500.
\<close>

datatype err_msg =
  Invalid_JSON | Missing_fields | Image_not_found | Need_2_points | Merge_failed py_exc

datatype reply = Json_error nat err_msg | Png "rgba img" | Unhandled py_exc

fun status :: "reply \<Rightarrow> nat" where
  "status (Json_error code msg) = code"
| "status (Png im) = 200"
| "status (Unhandled e) = 500"


text \<open>
  The \<^verbatim>\<open>try\<close> block (lines 97--223), entered with the path of an existing file. The
  product \<^verbatim>\<open>0.5 * corridor_px\<close> of line 108 comes before the length check of line 116.
\<close>

definition merge_try ::
  "backend \<Rightarrow> py_exc + picture \<Rightarrow> json \<Rightarrow> int \<Rightarrow> real \<Rightarrow> real \<Rightarrow> reply \<times> stage list" where
  "merge_try bk file points corridor_px outside_fade marker_alpha =
     (case file of
        Inl e \<Rightarrow> (Json_error 500 (Merge_failed e), [])
      | Inr pic \<Rightarrow>
          if \<not> float_range corridor_px
          then (Json_error 500 (Merge_failed OverflowError), [Load_base])
          else
          (case py_seq points of
             Inl e \<Rightarrow> (Json_error 500 (Merge_failed e), [Load_base])
           | Inr entries \<Rightarrow>
               if length entries < 2 then (Json_error 400 Need_2_points, [Load_base])
               else
                 (case points_of entries of
                    Inl e \<Rightarrow> (Json_error 500 (Merge_failed e), [Load_base])
                  | Inr (p0 # p1 # rest) \<Rightarrow>
                      (case render bk (convert_RGB pic) p0 p1 rest corridor_px outside_fade
                              marker_alpha of
                         (Inl e, steps) \<Rightarrow> (Json_error 500 (Merge_failed e), Load_base # steps)
                       | (Inr out_final, steps) \<Rightarrow> (Png out_final, Load_base # steps))
                  | Inr short \<Rightarrow> (Json_error 500 (Merge_failed IndexError), [Load_base]))))"

text \<open>Lines 79--88: the fields of a body that is a JSON object.\<close>

definition get_image_id :: "(string \<times> json) list \<Rightarrow> json" where
  "get_image_id data = dict_get data ''image_id''"

definition get_points :: "(string \<times> json) list \<Rightarrow> json" where
  "get_points data = py_or (dict_get data ''points'') (JArr [])"

definition get_corridor_px :: "env \<Rightarrow> (string \<times> json) list \<Rightarrow> py_exc + int" where
  "get_corridor_px ev data =
     int_of (str_to_int ev) (py_or (dict_get data ''corridor_px'') (JInt 0))"

definition get_outside_fade :: "env \<Rightarrow> (string \<times> json) list \<Rightarrow> py_exc + py_float" where
  "get_outside_fade ev data =
     float_of (str_to_float ev)
       (if dict_get data ''outside_fade'' \<noteq> JNull then dict_get data ''outside_fade''
        else JFloat 0.8)"

definition get_marker_alpha :: "env \<Rightarrow> (string \<times> json) list \<Rightarrow> py_exc + py_float" where
  "get_marker_alpha ev data =
     float_of (str_to_float ev)
       (if dict_get data ''marker_alpha'' \<noteq> JNull then dict_get data ''marker_alpha''
        else JFloat 0.7)"

text \<open>
  Lines 79--95. The three conversions run in this order, outside the \<^verbatim>\<open>try\<close>; then the
  check for missing fields, the path \<^verbatim>\<open>UPLOAD_DIR / image_id\<close> (a \<^verbatim>\<open>TypeError\<close> unless
  the id is a string) and the check that the file exists.
\<close>

definition merge_fields :: "env \<Rightarrow> (string \<times> json) list \<Rightarrow> reply \<times> stage list" where
  "merge_fields ev data =
     (case get_corridor_px ev data of
        Inl e \<Rightarrow> (Unhandled e, [])
      | Inr corridor_px \<Rightarrow>
          (case get_outside_fade ev data of
             Inl e \<Rightarrow> (Unhandled e, [])
           | Inr fade \<Rightarrow>
               (case get_marker_alpha ev data of
                  Inl e \<Rightarrow> (Unhandled e, [])
                | Inr alpha \<Rightarrow>
                    if \<not> truthy (get_image_id data) \<or> \<not> truthy (get_points data)
                       \<or> corridor_px \<le> 0
                    then (Json_error 400 Missing_fields, [])
                    else
                      (case get_image_id data of
                         JStr name \<Rightarrow>
                           (case uploads ev name of
                              None \<Rightarrow> (Json_error 404 Image_not_found, [])
                            | Some file \<Rightarrow>
                                merge_try (pillow ev) file (get_points data) corridor_px
                                  (clamp01 fade) (clamp01 alpha))
                       | other \<Rightarrow> (Unhandled TypeError, [])))))"

text \<open>
  The view. \<open>None\<close> is a body \<^verbatim>\<open>get_json\<close> could not read. A body that is not an object
  has no \<^verbatim>\<open>get\<close>.
\<close>

definition merge :: "env \<Rightarrow> json option \<Rightarrow> reply \<times> stage list" where
  "merge ev body =
     (case body of
        None \<Rightarrow> (Json_error 400 Invalid_JSON, [])
      | Some data \<Rightarrow>
          if \<not> truthy data then (Json_error 400 Invalid_JSON, [])
          else (case data of
                  JObj kvs \<Rightarrow> merge_fields ev kvs
                | other \<Rightarrow> (Unhandled AttributeError, [])))"

subsection \<open>Notions the properties are stated with\<close>

text \<open>The pixels a marker drawing call touches.\<close>

definition triangle_cover :: "backend \<Rightarrow> point \<Rightarrow> point \<Rightarrow> int \<Rightarrow> nat \<Rightarrow> nat \<Rightarrow> bool" where
  "triangle_cover bk p0 p1 corridor_px =
     (if joint_ok bk
      then line_cover bk True (triangle_path p0 p1 corridor_px) (marker_width corridor_px)
      else line_cover bk False (triangle_path p0 p1 corridor_px) (MARKER_STROKE_PX corridor_px))"

definition circle_cover :: "backend \<Rightarrow> point \<Rightarrow> int \<Rightarrow> nat \<Rightarrow> nat \<Rightarrow> bool" where
  "circle_cover bk pe corridor_px x y =
     (if width_ok bk
      then outline_cover bk (bbox pe corridor_px) (Some (marker_width corridor_px)) x y
      else list_ex (\<lambda>k. outline_cover bk (grow (bbox pe corridor_px) (real k / 2)) None x y)
             [0..<nat (MARKER_STROKE_PX corridor_px)])"

definition marker_cover :: "backend \<Rightarrow> point \<Rightarrow> point \<Rightarrow> point \<Rightarrow> int \<Rightarrow> nat \<Rightarrow> nat \<Rightarrow> bool" where
  "marker_cover bk p0 p1 pe corridor_px x y =
     (triangle_cover bk p0 p1 corridor_px x y \<or> circle_cover bk pe corridor_px x y)"

text \<open>
  The pixels a stroke of the path with its two end discs touches, and the pixel of the
  purple layer under a ring mask value, before the markers are drawn.
\<close>

definition stroke_cover :: "backend \<Rightarrow> point list \<Rightarrow> int \<Rightarrow> int \<Rightarrow> nat \<Rightarrow> nat \<Rightarrow> bool" where
  "stroke_cover bk xy w rad x y =
     (line_cover bk (joint_ok bk) xy w x y
      \<or> ellipse_cover bk (disc_box (hd xy) (of_int rad)) x y
      \<or> ellipse_cover bk (disc_box (last xy) (of_int rad)) x y)"

definition ring_px :: "nat \<Rightarrow> rgba" where
  "ring_px m = paste_rgba (0, 0, 0, 0) PURPLE_RGBA_OPAQUE m"

text \<open>The exact linear blend of a channel toward white, and a byte within rounding of it.\<close>

definition lerp :: "nat \<Rightarrow> real \<Rightarrow> real" where
  "lerp b f = real b + f * (255 - real b)"

definition rounds :: "nat \<Rightarrow> real \<Rightarrow> bool" where
  "rounds c v = (real c \<le> v \<and> v < real c + 1)"

text \<open>An 8-bit colour, its channels, and the pixel of a result.\<close>

definition valid_rgb :: "rgb \<Rightarrow> bool" where
  "valid_rgb p = (case p of (r, g, b) \<Rightarrow> r \<le> 255 \<and> g \<le> 255 \<and> b \<le> 255)"

definition channels :: "rgba \<Rightarrow> nat list" where
  "channels p = (case p of (r, g, b, a) \<Rightarrow> [r, g, b])"

definition pixel_at :: "(py_exc + rgba img) \<times> stage list \<Rightarrow> nat \<Rightarrow> nat \<Rightarrow> rgba option" where
  "pixel_at result x y =
     (case fst result of
        Inl e \<Rightarrow> None
      | Inr im \<Rightarrow> if x < width im \<and> y < height im then Some (px im x y) else None)"

definition all_stages :: "stage list" where
  "all_stages = [Load_base, Corridor_mask, Outside_fade, Edge_ring, Markers, Composite, Return_PNG]"



definition size_of :: "picture \<Rightarrow> nat \<times> nat" where
  "size_of pic = (case pic of
     Pic_L im \<Rightarrow> (width im, height im)
   | Pic_RGB im \<Rightarrow> (width im, height im)
   | Pic_RGBA im \<Rightarrow> (width im, height im))"

text \<open>
  Squared distance from a point to a segment, and whether some segment of a polyline lies
  within a squared distance of a point.
\<close>

definition seg_dist2 :: "point \<Rightarrow> point \<Rightarrow> point \<Rightarrow> real" where
  "seg_dist2 a b q =
     (let dx = fst b - fst a; dy = snd b - snd a; len2 = dx * dx + dy * dy;
          t = (if len2 = 0 then 0
               else max 0 (min 1 (((fst q - fst a) * dx + (snd q - snd a) * dy) / len2)));
          cx = fst a + t * dx; cy = snd a + t * dy
      in (fst q - cx) * (fst q - cx) + (snd q - cy) * (snd q - cy))"

fun near_path :: "point list \<Rightarrow> point \<Rightarrow> real \<Rightarrow> bool" where
  "near_path (a # b # ps) q d2 = (seg_dist2 a b q \<le> d2 \<or> near_path (b # ps) q d2)"
| "near_path ps q d2 = False"


subsection \<open>A reference backend and a small upload directory\<close>

text \<open>
  An idealised backend, to run the model on concrete requests: a stroke covers the pixels
  whose coordinates lie within half its width of the polyline (a width below 1 is drawn
  one pixel wide), an ellipse those inside it, an outline of width \<open>t\<close> those inside the
  ellipse and outside the one \<open>t\<close> further in (none at width 0); downsampling averages
  each block of two by two pixels.
\<close>

definition in_ellipse :: "box \<Rightarrow> point \<Rightarrow> bool" where
  "in_ellipse b q =
     (case b of (x0, y0, x1, y1) \<Rightarrow>
        (let cx = (x0 + x1) / 2; cy = (y0 + y1) / 2; rx = (x1 - x0) / 2; ry = (y1 - y0) / 2
         in 0 \<le> rx \<and> 0 \<le> ry
            \<and> (fst q - cx) * (fst q - cx) * (ry * ry) + (snd q - cy) * (snd q - cy) * (rx * rx)
                \<le> rx * rx * (ry * ry)))"

definition reference_backend :: backend where
  "reference_backend =
     \<lparr>joint_ok = True, width_ok = True,
      line_cover = (\<lambda>joint xy w x y.
        near_path xy (real x, real y) (of_int (max 1 w) / 2 * (of_int (max 1 w) / 2))),
      ellipse_cover = (\<lambda>b x y. in_ellipse b (real x, real y)),
      outline_cover = (\<lambda>b w x y.
        (let t = (case w of None \<Rightarrow> 1 | Some n \<Rightarrow> of_int n)
         in 0 < t \<and> in_ellipse b (real x, real y) \<and> \<not> in_ellipse (grow b (- t)) (real x, real y))),
      resample = (\<lambda>im w h x y.
        (px im (2 * x) (2 * y) + px im (2 * x + 1) (2 * y)
         + px im (2 * x) (2 * y + 1) + px im (2 * x + 1) (2 * y + 1)) div 4)\<rparr>"

text \<open>A stand-in for Python's number syntax: plain decimal digits.\<close>

definition decimal :: "string \<Rightarrow> int option" where
  "decimal s =
     (if s \<noteq> [] \<and> list_all (\<lambda>c. 48 \<le> (of_char c :: nat) \<and> (of_char c :: nat) \<le> 57) s
      then Some (foldl (\<lambda>n c. 10 * n + (int (of_char c) - 48)) 0 s) else None)"

text \<open>
  A directory with a grey 200 by 200 picture \<^verbatim>\<open>a.png\<close> and a file \<^verbatim>\<open>bad.png\<close> that does
  not decode.
\<close>

definition grey :: picture where
  "grey = Pic_RGB (new_img 200 200 (100, 100, 100))"

text \<open>Request bodies: a point, the three required fields, and those with a fade.\<close>

definition pt :: "int \<Rightarrow> int \<Rightarrow> json" where
  "pt x y = JObj [(''x'', JInt x), (''y'', JInt y)]"

definition request :: "string \<Rightarrow> json list \<Rightarrow> json \<Rightarrow> (string \<times> json) list" where
  "request name pts r = [(''image_id'', JStr name), (''points'', JArr pts), (''corridor_px'', r)]"

definition request_with_fade ::
  "string \<Rightarrow> json list \<Rightarrow> json \<Rightarrow> json \<Rightarrow> (string \<times> json) list" where
  "request_with_fade name pts r fade = request name pts r @ [(''outside_fade'', fade)]"

definition example_env :: env where
  "example_env =
     \<lparr>str_to_int = decimal,
      str_to_float = (\<lambda>s. map_option (\<lambda>n. Finite (of_int n)) (decimal s)),
      uploads = (\<lambda>name. if name = ''a.png'' then Some (Inr grey)
                         else if name = ''bad.png'' then Some (Inl UnidentifiedImageError)
                         else None),
      pillow = reference_backend\<rparr>"

section \<open>Properties\<close>

lemma py_int_nonneg: "0 \<le> x \<Longrightarrow> py_int x = \<lfloor>x\<rfloor>"
  by (simp add: py_int_def)

subsection \<open>Marker stroke width\<close>

lemma MARKER_STROKE_PX_eq: "0 \<le> r \<Longrightarrow> MARKER_STROKE_PX r = max 2 (3 * r div 5)"
proof -
  assume nonneg: "0 \<le> r"
  have "(0.6 * of_int r :: real) = of_int (3 * r) / of_int 5"
    by simp
  then have "\<lfloor>0.6 * of_int r :: real\<rfloor> = 3 * r div 5"
    by (simp only: floor_divide_of_int_eq)
  with nonneg show ?thesis
    by (simp add: MARKER_STROKE_PX_def py_int_def)
qed

lemma marker_width_ge1: "0 \<le> r \<Longrightarrow> (1 \<le> marker_width r) = (5 \<le> r)"
  unfolding marker_width_def by (simp add: MARKER_STROKE_PX_eq) presburger

text \<open>
  C4. The width handed to both marker outlines is \<^verbatim>\<open>MARKER_STROKE_PX//3\<close>. The lower
  bound 2 is taken before the division by 3, so for the corridor radii 1 to 4 the width
  is 0, not at least 1; from radius 5 on it is at least 1.
\<close>

theorem C4_marker_width_small_radius:
  "marker_width 1 = 0 \<and> marker_width 2 = 0 \<and> marker_width 3 = 0 \<and> marker_width 4 = 0
   \<and> marker_width 5 = 1"
  by (simp add: marker_width_def MARKER_STROKE_PX_def py_int_def)

subsection \<open>Start marker on a path whose first two points coincide\<close>

text \<open>
  C5 (as amended). When the first two points coincide the norm is replaced by 1, the
  direction is the zero vector, and the tip and both base corners of the triangle are the
  first point itself.
\<close>

theorem C5_coincident_points_degenerate:
  "direction p p = (0, 0) \<and> tip p p corridor_px = p
   \<and> triangle_path p p corridor_px = [p, p, p, p]"
  by (simp add: triangle_path_def tip_def left_def right_def direction_def hypot_def)

text \<open>
  C5 as stated fails: at \<open>p0 = p1 = (10, 10)\<close> and radius 5 the direction is not a unit
  vector and the tip is not at distance \<open>1.6 * 5\<close> from the first point.
\<close>

theorem C5_counterexample:
  "hypot (fst (direction (10, 10) (10, 10))) (snd (direction (10, 10) (10, 10))) \<noteq> 1
   \<and> hypot (fst (tip (10, 10) (10, 10) 5) - 10) (snd (tip (10, 10) (10, 10) 5) - 10)
       \<noteq> 1.6 * 5"
  by (simp add: tip_def direction_def hypot_def)

subsection \<open>Pixel arithmetic\<close>

lemma BLEND8_zero: "t \<le> 255 \<Longrightarrow> BLEND8 0 t s = t"
  unfolding BLEND8_def DIV255_def SHIFTFORDIV255_def by simp


lemma ring_px_zero: "ring_px 0 = (0, 0, 0, 0)"
  by (simp add: ring_px_def paste_rgba_def PURPLE_RGBA_OPAQUE_def BLEND8_zero)


lemma over_transparent: "alpha_composite_px dst (r, g, b, 0) = dst"
  by (cases dst) (simp add: alpha_composite_px_def)

lemma over_purple: "alpha_composite_px (opaque p) PURPLE_RGBA_OPAQUE = PURPLE_RGBA_OPAQUE"
  by (cases p) (simp add: alpha_composite_px_def opaque_def PURPLE_RGBA_OPAQUE_def
      SHIFTFORDIV255_def Let_def)

text \<open>The byte a value between 0 and 255 is cut to.\<close>

lemma byte_of_floor:
  fixes v :: real
  assumes "0 \<le> v" "v \<le> 255"
  shows "nat (py_int v) mod 256 = nat \<lfloor>v\<rfloor>" and "nat \<lfloor>v\<rfloor> \<le> 255"
    and "real (nat \<lfloor>v\<rfloor>) \<le> v" and "v < real (nat \<lfloor>v\<rfloor>) + 1"
proof -
  have "\<lfloor>v\<rfloor> \<le> \<lfloor>255 :: real\<rfloor>" using assms(2) by (rule floor_mono)
  then have le: "\<lfloor>v\<rfloor> \<le> 255" by simp
  have ge: "0 \<le> \<lfloor>v\<rfloor>" using assms(1) by simp
  show n: "nat \<lfloor>v\<rfloor> \<le> 255" using le by linarith
  have "nat (py_int v) = nat \<lfloor>v\<rfloor>" using assms(1) by (simp add: py_int_def)
  then show "nat (py_int v) mod 256 = nat \<lfloor>v\<rfloor>" using n by simp
  show "real (nat \<lfloor>v\<rfloor>) \<le> v" using ge by simp
  show "v < real (nat \<lfloor>v\<rfloor>) + 1" using ge by simp
qed

lemma lerp_range:
  assumes "b \<le> 255" "0 \<le> f" "f \<le> 1"
  shows "real b \<le> lerp b f" and "lerp b f \<le> 255"
proof -
  have nn: "0 \<le> 255 - real b" using assms(1) by simp
  show "real b \<le> lerp b f" using assms(2) nn by (simp add: lerp_def)
  have "f * (255 - real b) \<le> 1 * (255 - real b)"
    using assms(3) nn by (rule mult_right_mono)
  then show "lerp b f \<le> 255" by (simp add: lerp_def)
qed

lemma lerp_mono:
  assumes "b \<le> 255" "f1 \<le> f2"
  shows "lerp b f1 \<le> lerp b f2"
proof -
  have nn: "0 \<le> 255 - real b" using assms(1) by simp
  have "f1 * (255 - real b) \<le> f2 * (255 - real b)"
    using assms(2) nn by (rule mult_right_mono)
  then show ?thesis by (simp add: lerp_def)
qed

lemma blend_channel_floor:
  assumes "b \<le> 255" "0 \<le> f" "f \<le> 1"
  shows "blend_channel b 255 f = nat \<lfloor>lerp b f\<rfloor>"
proof -
  have r: "0 \<le> lerp b f" "lerp b f \<le> 255"
    using lerp_range[OF assms] by linarith+
  have l0: "lerp b 0 = real b" and l1: "lerp b 1 = 255" by (simp_all add: lerp_def)
  have "blend_channel b 255 f =
      (if f = 0 then b else if f = 1 then 255 else nat (py_int (lerp b f)) mod 256)"
    by (simp add: blend_channel_def lerp_def)
  also have "\<dots> = nat \<lfloor>lerp b f\<rfloor>"
    using byte_of_floor(1)[OF r] l0 l1 by auto
  finally show ?thesis .
qed

lemma blend_channel_bounds:
  assumes "b \<le> 255" "0 \<le> f" "f \<le> 1"
  shows "rounds (blend_channel b 255 f) (lerp b f)" and "blend_channel b 255 f \<le> 255"
proof -
  have r: "0 \<le> lerp b f" "lerp b f \<le> 255"
    using lerp_range[OF assms] by linarith+
  show "rounds (blend_channel b 255 f) (lerp b f)"
    using byte_of_floor(3,4)[OF r] by (simp add: blend_channel_floor[OF assms] rounds_def)
  show "blend_channel b 255 f \<le> 255"
    using byte_of_floor(2)[OF r] by (simp add: blend_channel_floor[OF assms])
qed

lemma blend_channel_mono:
  assumes "b \<le> 255" "0 \<le> f1" "f1 \<le> f2" "f2 \<le> 1"
  shows "blend_channel b 255 f1 \<le> blend_channel b 255 f2"
proof -
  have a1: "0 \<le> f1" "f1 \<le> 1" and a2: "0 \<le> f2" "f2 \<le> 1" using assms by linarith+
  have "nat \<lfloor>lerp b f1\<rfloor> \<le> nat \<lfloor>lerp b f2\<rfloor>"
    by (intro nat_mono floor_mono lerp_mono assms)
  then show ?thesis
    by (simp add: blend_channel_floor[OF assms(1) a1] blend_channel_floor[OF assms(1) a2])
qed

lemma blend_channel_ends: "blend_channel b 255 0 = b" "blend_channel b 255 1 = 255"
  by (simp_all add: blend_channel_def)

subsection \<open>Drawing and the layers\<close>

lemma draw_on_simps [simp]:
  "width (draw_on im c ink) = width im"
  "height (draw_on im c ink) = height im"
  "px (draw_on im c ink) x y = (if c x y then ink else px im x y)"
  by (simp_all add: draw_on_def)

lemma resize_simps [simp]:
  "width (resize bk im w h) = w"
  "height (resize bk im w h) = h"
  "px (resize bk im w h) x y = min 255 (resample bk im w h x y)"
  by (simp_all add: resize_def)

lemma fold_draw_size:
  "width (fold (\<lambda>k im. draw_on im (c k) ink) ks im0) = width im0
   \<and> height (fold (\<lambda>k im. draw_on im (c k) ink) ks im0) = height im0"
  by (induction ks arbitrary: im0) simp_all

lemma fold_draw_px:
  "px (fold (\<lambda>k im. draw_on im (c k) ink) ks im0) x y
     = (if list_ex (\<lambda>k. c k x y) ks then ink else px im0 x y)"
  by (induction ks arbitrary: im0) simp_all

lemma draw_markers_size [simp]:
  "width (draw_markers bk layer p0 p1 pe r a) = width layer"
  "height (draw_markers bk layer p0 p1 pe r a) = height layer"
  by (simp_all add: draw_markers_def draw_circle_def draw_triangle_def fold_draw_size)

lemma draw_markers_px:
  "px (draw_markers bk layer p0 p1 pe r a) x y
     = (if marker_cover bk p0 p1 pe r x y then PURPLE_RGBA_MARKER a else px layer x y)"
  by (simp add: draw_markers_def draw_circle_def draw_triangle_def fold_draw_px
      marker_cover_def triangle_cover_def circle_cover_def)

lemma px_mask2:
  "px (mask2 bk W H xy r) x y = (if stroke_cover bk xy (stroke_w2 r) (r_in r) x y then 255 else 0)"
  by (auto simp add: mask2_def try_line_def new_img_def stroke_cover_def Let_def)

lemma px_ring2:
  "px (ring2 bk W H xy r) x y =
     (if stroke_cover bk xy (stroke_w2 r) (r_in r) x y then 0
      else if stroke_cover bk xy (outer_w2 r) (r_out r) x y then 255 else 0)"
  by (auto simp add: ring2_def try_line_def new_img_def stroke_cover_def Let_def)

text \<open>
  The composite never raises: every layer has the size of the base. Its pixel is the
  overlay pixel composited over the restored background.
\<close>

lemma render_eq:
  "render bk base p0 p1 rest r f a =
     (Inr \<lparr>width = width base, height = height base,
           px = (\<lambda>x y. alpha_composite_px
                  (opaque (if x < width base \<and> y < height base
                           then paste_rgb (outside_px (px base x y) f) (px base x y)
                                  (px (corridor_mask bk (width base) (height base) (p0 # p1 # rest) r) x y)
                           else outside_px (px base x y) f))
                  (if marker_cover bk p0 p1 (last (p0 # p1 # rest)) r x y then PURPLE_RGBA_MARKER a
                   else if x < width base \<and> y < height base
                        then ring_px (px (ring_mask bk (width base) (height base) (p0 # p1 # rest) r) x y)
                        else (0, 0, 0, 0)))\<rparr>,
      [Corridor_mask, Outside_fade, Edge_ring, Markers, Composite, Return_PNG])"
  unfolding render_def fade_and_restore_def outside_def purple_ring_def blend_def paste_def composite_def
    alpha_composite_def convert_RGBA_def
  by (simp add: same_size_def new_img_def corridor_mask_def ring_mask_def Let_def
      draw_markers_px outside_px_def ring_px_def white_def fun_eq_iff del: resize_simps(3))

lemma pixel_at_render:
  "pixel_at (render bk base p0 p1 rest r f a) x y =
     (if x < width base \<and> y < height base
      then Some (alpha_composite_px
             (opaque (paste_rgb (outside_px (px base x y) f) (px base x y)
                        (px (corridor_mask bk (width base) (height base) (p0 # p1 # rest) r) x y)))
             (if marker_cover bk p0 p1 (last (p0 # p1 # rest)) r x y then PURPLE_RGBA_MARKER a
              else ring_px (px (ring_mask bk (width base) (height base) (p0 # p1 # rest) r) x y)))
      else None)"
  by (simp add: pixel_at_def render_eq)

lemma outside_px_valid:
  assumes "valid_rgb p" "0 \<le> f" "f \<le> 1"
  shows "valid_rgb (outside_px p f)"
  using assms
  by (cases p) (simp add: valid_rgb_def outside_px_def blend_rgb_def white_def blend_channel_bounds(2))

lemma paste_rgb_zero: "valid_rgb t \<Longrightarrow> paste_rgb t s 0 = t"
  by (cases t, cases s) (simp add: paste_rgb_def valid_rgb_def BLEND8_zero)

lemma outside_pixel:
  assumes "x < width base" "y < height base" "valid_rgb (px base x y)" "0 \<le> f" "f \<le> 1"
    and "px (corridor_mask bk (width base) (height base) (p0 # p1 # rest) r) x y = 0"
    and "px (ring_mask bk (width base) (height base) (p0 # p1 # rest) r) x y = 0"
    and "\<not> marker_cover bk p0 p1 (last (p0 # p1 # rest)) r x y"
  shows "pixel_at (render bk base p0 p1 rest r f a) x y = Some (opaque (outside_px (px base x y) f))"
  using assms
  by (simp add: pixel_at_render ring_px_zero over_transparent paste_rgb_zero outside_px_valid
      del: last.simps)


lemma outside_px_mono:
  assumes "valid_rgb p" "0 \<le> f1" "f1 \<le> f2" "f2 \<le> 1"
  shows "list_all2 (\<le>) (channels (opaque (outside_px p f1))) (channels (opaque (outside_px p f2)))"
    and "list_all (\<lambda>c. c \<le> 255) (channels (opaque (outside_px p f2)))"
proof -
  have r2: "0 \<le> f2" using assms by linarith
  show "list_all2 (\<le>) (channels (opaque (outside_px p f1))) (channels (opaque (outside_px p f2)))"
    using assms
    by (cases p) (simp add: valid_rgb_def outside_px_def blend_rgb_def white_def opaque_def
        channels_def blend_channel_mono)
  show "list_all (\<lambda>c. c \<le> 255) (channels (opaque (outside_px p f2)))"
    using assms r2
    by (cases p) (simp add: valid_rgb_def outside_px_def blend_rgb_def white_def opaque_def
        channels_def blend_channel_bounds(2))
qed

lemma outside_px_ends: "outside_px p 0 = p" "outside_px p 1 = white"
  by (cases p; simp add: outside_px_def blend_rgb_def white_def blend_channel_ends)+

subsection \<open>The reference backend at concrete pixels\<close>

lemma marker_cover_ref:
  "marker_cover reference_backend p0 p1 pe r x y =
     (near_path (triangle_path p0 p1 r) (real x, real y)
        (of_int (max 1 (marker_width r)) / 2 * (of_int (max 1 (marker_width r)) / 2))
      \<or> (0 < marker_width r \<and> in_ellipse (bbox pe r) (real x, real y)
          \<and> \<not> in_ellipse (grow (bbox pe r) (- of_int (marker_width r))) (real x, real y)))"
  by (simp add: marker_cover_def triangle_cover_def circle_cover_def reference_backend_def)

lemma params20: "stroke_w2 20 = 80" "r_in 20 = 40" "outer_w2 20 = 120" "r_out 20 = 60"
  "marker_width 20 = 4" "end_r 20 = 18"
  by (simp_all add: stroke_w2_def r_in_def outer_w2_def r_out_def edge_w2_def EDGE_THICKNESS_PX_def
      scale_def py_int_def marker_width_def MARKER_STROKE_PX_def end_r_def)

lemma ref_corridor_px:
  "px (corridor_mask reference_backend w h pts r) x y =
     min 255 ((px (mask2 reference_backend (w * nat scale) (h * nat scale) (pts2 pts) r) (2 * x) (2 * y)
      + px (mask2 reference_backend (w * nat scale) (h * nat scale) (pts2 pts) r) (2 * x + 1) (2 * y)
      + px (mask2 reference_backend (w * nat scale) (h * nat scale) (pts2 pts) r) (2 * x) (2 * y + 1)
      + px (mask2 reference_backend (w * nat scale) (h * nat scale) (pts2 pts) r) (2 * x + 1) (2 * y + 1)) div 4)"
  unfolding corridor_mask_def resize_simps
  by (simp add: reference_backend_def del: One_nat_def)

lemma ref_ring_px:
  "px (ring_mask reference_backend w h pts r) x y =
     min 255 ((px (ring2 reference_backend (w * nat scale) (h * nat scale) (pts2 pts) r) (2 * x) (2 * y)
      + px (ring2 reference_backend (w * nat scale) (h * nat scale) (pts2 pts) r) (2 * x + 1) (2 * y)
      + px (ring2 reference_backend (w * nat scale) (h * nat scale) (pts2 pts) r) (2 * x) (2 * y + 1)
      + px (ring2 reference_backend (w * nat scale) (h * nat scale) (pts2 pts) r) (2 * x + 1) (2 * y + 1)) div 4)"
  unfolding ring_mask_def resize_simps
  by (simp add: reference_backend_def del: One_nat_def)

text \<open>The straight path from (40, 100) to (160, 100), radius 20.\<close>

lemma long_pts2: "pts2 [(40, 100), (160, 100)] = [(80, 200), (320, 200)]"
  by (simp add: pts2_def scale_def)

lemma long_triangle:
  "triangle_path (40, 100) (160, 100) 20 = [(72, 100), (40, 116), (40, 84), (72, 100)]"
  by (simp add: triangle_path_def tip_def left_def right_def direction_def hypot_def
      tri_height_def tri_base_def)

lemma long_bbox: "bbox (160, 100) 20 = (142, 82, 178, 118)"
  by (simp add: bbox_def params20)







lemma grey_px: "px (convert_RGB grey) x y = (100, 100, 100)"
  "width (convert_RGB grey) = 200" "height (convert_RGB grey) = 200"
  by (simp_all add: grey_def new_img_def)

lemma grey_faded: "outside_px (100, 100, 100) (4 / 5) = (224, 224, 224)"
  by (simp add: outside_px_def blend_rgb_def white_def blend_channel_def py_int_def)


lemma long_corner_inner:
  "\<not> stroke_cover reference_backend [(80, 200), (320, 200)] 80 40 4 4"
  "\<not> stroke_cover reference_backend [(80, 200), (320, 200)] 80 40 5 4"
  "\<not> stroke_cover reference_backend [(80, 200), (320, 200)] 80 40 4 5"
  "\<not> stroke_cover reference_backend [(80, 200), (320, 200)] 80 40 5 5"
  by code_simp+

lemma long_corner_outer:
  "\<not> stroke_cover reference_backend [(80, 200), (320, 200)] 120 60 4 4"
  "\<not> stroke_cover reference_backend [(80, 200), (320, 200)] 120 60 5 4"
  "\<not> stroke_cover reference_backend [(80, 200), (320, 200)] 120 60 4 5"
  "\<not> stroke_cover reference_backend [(80, 200), (320, 200)] 120 60 5 5"
  by code_simp+

lemma long_corner_corridor:
  "px (corridor_mask reference_backend 200 200 [(40, 100), (160, 100)] 20) 2 2 = 0"
  by (simp add: ref_corridor_px px_mask2 long_pts2 params20 long_corner_inner)

lemma long_corner_ring:
  "px (ring_mask reference_backend 200 200 [(40, 100), (160, 100)] 20) 2 2 = 0"
  by (simp add: ref_ring_px px_ring2 long_pts2 params20 long_corner_inner long_corner_outer)

lemma long_corner_marker:
  "\<not> marker_cover reference_backend (40, 100) (160, 100) (160, 100) 20 2 2"
  unfolding marker_cover_ref long_triangle long_bbox params20 by code_simp

text \<open>The short path from (100, 100) to (107, 100), radius 20: a pixel on the triangle's edge next to its tip.\<close>

lemma short_pts2: "pts2 [(100, 100), (107, 100)] = [(200, 200), (214, 200)]"
  by (simp add: pts2_def scale_def)

lemma short_triangle:
  "triangle_path (100, 100) (107, 100) 20 = [(132, 100), (100, 116), (100, 84), (132, 100)]"
  by (simp add: triangle_path_def tip_def left_def right_def direction_def hypot_def
      tri_height_def tri_base_def)

lemma short_tip_inner:
  "\<not> stroke_cover reference_backend [(200, 200), (214, 200)] 80 40 260 202"
  "\<not> stroke_cover reference_backend [(200, 200), (214, 200)] 80 40 261 202"
  "\<not> stroke_cover reference_backend [(200, 200), (214, 200)] 80 40 260 203"
  "\<not> stroke_cover reference_backend [(200, 200), (214, 200)] 80 40 261 203"
  by code_simp+

lemma short_tip_outer:
  "stroke_cover reference_backend [(200, 200), (214, 200)] 120 60 260 202"
  "stroke_cover reference_backend [(200, 200), (214, 200)] 120 60 261 202"
  "stroke_cover reference_backend [(200, 200), (214, 200)] 120 60 260 203"
  "stroke_cover reference_backend [(200, 200), (214, 200)] 120 60 261 203"
  by code_simp+

lemma short_tip_corridor:
  "px (corridor_mask reference_backend 200 200 [(100, 100), (107, 100)] 20) 130 101 = 0"
  by (simp add: ref_corridor_px px_mask2 short_pts2 params20 short_tip_inner)

lemma short_tip_ring:
  "px (ring_mask reference_backend 200 200 [(100, 100), (107, 100)] 20) 130 101 = 255"
  by (simp add: ref_ring_px px_ring2 short_pts2 params20 short_tip_inner short_tip_outer)

lemma short_tip_marker:
  "marker_cover reference_backend (100, 100) (107, 100) (107, 100) 20 130 101"
  unfolding marker_cover_ref short_triangle params20 by code_simp

lemma marker_ink: "PURPLE_RGBA_MARKER 0 = (128, 0, 255, 0)" "PURPLE_RGBA_MARKER 1 = PURPLE_RGBA_OPAQUE"
  by (simp_all add: PURPLE_RGBA_MARKER_def PURPLE_RGBA_OPAQUE_def py_round_def)

text \<open>
  C1. On the path from (100, 100) to (107, 100) with radius 20 the triangle reaches beyond
  the corridor and its edge crosses the ring. At the pixel (130, 101) on that edge the ring
  mask is 255, yet the output there is the faded background for \<^verbatim>\<open>marker_alpha = 0\<close> and
  the purple for \<^verbatim>\<open>marker_alpha = 1\<close>: the marker ink replaces the ring pixel of the overlay,
  alpha included, so this ring-covered pixel depends on \<^verbatim>\<open>marker_alpha\<close>.
\<close>

theorem C1_ring_pixel_under_marker:
  "px (ring_mask reference_backend 200 200 [(100, 100), (107, 100)] 20) 130 101 = 255
   \<and> pixel_at (render reference_backend (convert_RGB grey) (100, 100) (107, 100) [] 20 0.8 0) 130 101
       = Some (224, 224, 224, 255)
   \<and> pixel_at (render reference_backend (convert_RGB grey) (100, 100) (107, 100) [] 20 0.8 1) 130 101
       = Some (128, 0, 255, 255)"
proof -
  have v: "valid_rgb (224, 224, 224)" by (simp add: valid_rgb_def)
  have "pixel_at (render reference_backend (convert_RGB grey) (100, 100) (107, 100) [] 20 0.8 0) 130 101
      = Some (opaque (224, 224, 224))"
    by (simp add: pixel_at_render grey_px short_tip_corridor short_tip_marker marker_ink
        over_transparent grey_faded paste_rgb_zero[OF v])
  moreover
  have "pixel_at (render reference_backend (convert_RGB grey) (100, 100) (107, 100) [] 20 0.8 1) 130 101
      = Some PURPLE_RGBA_OPAQUE"
    by (simp add: pixel_at_render grey_px short_tip_marker marker_ink over_purple)
  ultimately show ?thesis
    using short_tip_ring by (simp add: PURPLE_RGBA_OPAQUE_def opaque_def)
qed

text \<open>
  In general: the overlay pixel under a marker stroke is the marker ink, whatever the ring
  mask; a pixel no marker stroke touches does not depend on \<^verbatim>\<open>marker_alpha\<close>.
\<close>

lemma pixel_under_marker:
  assumes "x < width base" and "y < height base"
    and "marker_cover bk p0 p1 (last (p0 # p1 # rest)) r x y"
  shows "pixel_at (render bk base p0 p1 rest r f a) x y =
     Some (alpha_composite_px
       (opaque (paste_rgb (outside_px (px base x y) f) (px base x y)
                  (px (corridor_mask bk (width base) (height base) (p0 # p1 # rest) r) x y)))
       (PURPLE_RGBA_MARKER a))"
  using assms by (simp add: pixel_at_render del: last.simps)

lemma pixel_clear_of_markers:
  assumes "\<not> marker_cover bk p0 p1 (last (p0 # p1 # rest)) r x y"
  shows "pixel_at (render bk base p0 p1 rest r f a) x y
       = pixel_at (render bk base p0 p1 rest r f a') x y"
  using assms by (simp add: pixel_at_render del: last.simps)

subsection \<open>Pixels outside the corridor\<close>


lemma grey_valid: "valid_rgb (px (convert_RGB grey) x y)"
  by (simp add: grey_px valid_rgb_def)


lemma outside_eq:
  "outside base f = Inr \<lparr>width = width base, height = height base,
                          px = (\<lambda>x y. outside_px (px base x y) f)\<rparr>"
  by (simp add: outside_def blend_def same_size_def new_img_def outside_px_def)

text \<open>
  C7. The blend of line 138 never raises, and at every pixel of a valid base picture it
  is monotone in the fade: for \<open>0 \<le> f1 \<le> f2 \<le> 1\<close> each channel under \<open>f2\<close> is at least the
  channel under \<open>f1\<close> and at most 255; at fade 0 it is the base colour, at fade 1 white.
  Where the corridor mask and the ring mask are 0 and no marker stroke lies, the output
  pixel is this blended colour.
\<close>

theorem C7_fade_monotone:
  assumes "valid_rgb (px base x y)" and "0 \<le> f1" and "f1 \<le> f2" and "f2 \<le> 1"
  shows "\<exists>o1 o2 o0 ow.
           outside base f1 = Inr o1 \<and> outside base f2 = Inr o2
         \<and> outside base 0 = Inr o0 \<and> outside base 1 = Inr ow
         \<and> list_all2 (\<le>) (channels (opaque (px o1 x y))) (channels (opaque (px o2 x y)))
         \<and> list_all (\<lambda>c. c \<le> 255) (channels (opaque (px o2 x y)))
         \<and> px o0 x y = px base x y \<and> px ow x y = white
         \<and> (x < width base \<and> y < height base
              \<and> px (corridor_mask bk (width base) (height base) (p0 # p1 # rest) r) x y = 0
              \<and> px (ring_mask bk (width base) (height base) (p0 # p1 # rest) r) x y = 0
              \<and> \<not> marker_cover bk p0 p1 (last (p0 # p1 # rest)) r x y
              \<longrightarrow> pixel_at (render bk base p0 p1 rest r f1 a) x y = Some (opaque (px o1 x y))
                \<and> pixel_at (render bk base p0 p1 rest r f2 a) x y = Some (opaque (px o2 x y)))"
proof -
  have b1: "f1 \<le> 1" and b2: "0 \<le> f2" using assms(2,3,4) by linarith+
  show ?thesis
    unfolding outside_eq
    using outside_pixel[OF _ _ assms(1,2) b1, of bk p0 p1 rest r a]
      outside_pixel[OF _ _ assms(1) b2 assms(4), of bk p0 p1 rest r a]
      outside_px_mono[OF assms] outside_px_ends
    by simp
qed

lemma grey_faded_half: "outside_px (100, 100, 100) (1 / 2) = (177, 177, 177)"
  by (simp add: outside_px_def blend_rgb_def white_def blend_channel_def py_int_def)

text \<open>
  C7 at the pixel (2, 2) of the grey picture, fades 0.5 and 0.8: (177, 177, 177) and
  (224, 224, 224).
\<close>

theorem C7_witness:
  "list_all2 (\<le>) [177, 177, 177] [224, 224, 224 :: nat]
   \<and> outside (convert_RGB grey) 0 = Inr (convert_RGB grey)
   \<and> outside (convert_RGB grey) 1 = Inr (new_img 200 200 white)
   \<and> px (corridor_mask reference_backend 200 200 [(40, 100), (160, 100)] 20) 2 2 = 0
   \<and> px (ring_mask reference_backend 200 200 [(40, 100), (160, 100)] 20) 2 2 = 0
   \<and> \<not> marker_cover reference_backend (40, 100) (160, 100) (160, 100) 20 2 2
   \<and> pixel_at (render reference_backend (convert_RGB grey) (40, 100) (160, 100) [] 20 0.5 0.7) 2 2
     = Some (177, 177, 177, 255)
   \<and> pixel_at (render reference_backend (convert_RGB grey) (40, 100) (160, 100) [] 20 0.8 0.7) 2 2
     = Some (224, 224, 224, 255)"
proof -
  have e: "outside (convert_RGB grey) 0 = Inr (convert_RGB grey)"
    "outside (convert_RGB grey) 1 = Inr (new_img 200 200 white)"
    by (simp_all add: outside_eq outside_px_ends grey_def new_img_def)
  have "\<exists>o1 o2 o0 ow.
           outside (convert_RGB grey) (1 / 2) = Inr o1 \<and> outside (convert_RGB grey) (4 / 5) = Inr o2
         \<and> outside (convert_RGB grey) 0 = Inr o0 \<and> outside (convert_RGB grey) 1 = Inr ow
         \<and> list_all2 (\<le>) (channels (opaque (px o1 2 2))) (channels (opaque (px o2 2 2)))
         \<and> list_all (\<lambda>c. c \<le> 255) (channels (opaque (px o2 2 2)))
         \<and> px o0 2 2 = px (convert_RGB grey) 2 2 \<and> px ow 2 2 = white
         \<and> (2 < width (convert_RGB grey) \<and> 2 < height (convert_RGB grey)
              \<and> px (corridor_mask reference_backend (width (convert_RGB grey)) (height (convert_RGB grey))
                     [(40, 100), (160, 100)] 20) 2 2 = 0
              \<and> px (ring_mask reference_backend (width (convert_RGB grey)) (height (convert_RGB grey))
                     [(40, 100), (160, 100)] 20) 2 2 = 0
              \<and> \<not> marker_cover reference_backend (40, 100) (160, 100) (last [(40, 100), (160, 100)]) 20 2 2
              \<longrightarrow> pixel_at (render reference_backend (convert_RGB grey) (40, 100) (160, 100) [] 20 (1 / 2) (7 / 10)) 2 2
                    = Some (opaque (px o1 2 2))
                \<and> pixel_at (render reference_backend (convert_RGB grey) (40, 100) (160, 100) [] 20 (4 / 5) (7 / 10)) 2 2
                    = Some (opaque (px o2 2 2)))"
    by (rule C7_fade_monotone[OF grey_valid]) simp_all
  then show ?thesis
    using long_corner_corridor long_corner_ring long_corner_marker e
    by (auto simp add: outside_eq grey_px grey_faded grey_faded_half opaque_def channels_def)
qed

subsection \<open>The replies of the view\<close>

lemma render_result:
  "\<exists>img. render bk base p0 p1 rest r f a = (Inr img, tl all_stages)
     \<and> width img = width base \<and> height img = height base"
  by (simp add: render_eq all_stages_def)







lemma merge_JObj: "merge ev (Some (JObj data)) =
   (if data = [] then (Json_error 400 Invalid_JSON, []) else merge_fields ev data)"
  by (simp add: merge_def)


lemma get_corridor_px_Inl_nonempty: "get_corridor_px ev data = Inl e \<Longrightarrow> data \<noteq> []"
  by (auto simp add: get_corridor_px_def dict_get_def py_or_def)

lemma get_outside_fade_Inl_nonempty: "get_outside_fade ev data = Inl e \<Longrightarrow> data \<noteq> []"
  by (auto simp add: get_outside_fade_def dict_get_def)

lemma get_marker_alpha_Inl_nonempty: "get_marker_alpha ev data = Inl e \<Longrightarrow> data \<noteq> []"
  by (auto simp add: get_marker_alpha_def dict_get_def)

lemma get_image_id_JStr_nonempty: "get_image_id data = JStr name \<Longrightarrow> data \<noteq> []"
  by (auto simp add: get_image_id_def dict_get_def)

text \<open>
  C3 (as amended). A \<^verbatim>\<open>corridor_px\<close>, \<^verbatim>\<open>outside_fade\<close> or \<^verbatim>\<open>marker_alpha\<close> that does not
  convert raises before any check: the exception \<open>e\<close> leaves the view, which is answered
  with status 500. A stored file that does not decode is caught by the handler of line 222
  and answered with status 500 and the text \<^verbatim>\<open>merge failed: e\<close>. In both cases the class
  is the internal failure, never bad input.
\<close>

theorem C3_malformed_input_answers_500:
  "(get_corridor_px ev data = Inl e \<longrightarrow> merge ev (Some (JObj data)) = (Unhandled e, []))
   \<and> (get_corridor_px ev data = Inr r \<and> get_outside_fade ev data = Inl e
        \<longrightarrow> merge ev (Some (JObj data)) = (Unhandled e, []))
   \<and> (get_corridor_px ev data = Inr r \<and> get_outside_fade ev data = Inr f
        \<and> get_marker_alpha ev data = Inl e
        \<longrightarrow> merge ev (Some (JObj data)) = (Unhandled e, []))
   \<and> (get_corridor_px ev data = Inr r \<and> get_outside_fade ev data = Inr f
        \<and> get_marker_alpha ev data = Inr a \<and> 0 < r \<and> truthy (get_points data)
        \<and> get_image_id data = JStr name \<and> name \<noteq> [] \<and> uploads ev name = Some (Inl e)
        \<longrightarrow> merge ev (Some (JObj data)) = (Json_error 500 (Merge_failed e), []))
   \<and> status (Unhandled e) = 500 \<and> status (Json_error 500 (Merge_failed e)) = 500"
  using get_corridor_px_Inl_nonempty[of ev data e] get_outside_fade_Inl_nonempty[of ev data e]
    get_marker_alpha_Inl_nonempty[of ev data e] get_image_id_JStr_nonempty[of data name]
  by (auto simp add: merge_JObj merge_fields_def merge_try_def)

lemma merge_png_size:
  assumes "merge_try bk (Inr pic) pts r f a = (Png out, tr)"
  shows "(width out, height out) = size_of pic"
proof -
  have c: "(width (convert_RGB pic), height (convert_RGB pic)) = size_of pic"
    by (cases pic) (simp_all add: size_of_def)
  show ?thesis
    using assms c unfolding merge_try_def render_eq
    by (auto split: sum.splits list.splits if_splits)
qed

text \<open>
  C6. When the view answers with the PNG, the image has the width and the height of the
  stored picture the request names.
\<close>

theorem C6_output_has_base_size:
  assumes "merge ev (Some (JObj data)) = (Png out, tr)"
    and "get_image_id data = JStr name" and "uploads ev name = Some (Inr pic)"
  shows "(width out, height out) = size_of pic"
proof -
  have "merge_fields ev data = (Png out, tr)"
    using assms(1) by (simp add: merge_JObj split: if_splits)
  then obtain r f a where "merge_try (pillow ev) (Inr pic) (get_points data) r f a = (Png out, tr)"
    using assms(2,3) unfolding merge_fields_def
    by (auto split: sum.splits if_splits)
  then show ?thesis by (rule merge_png_size)
qed

lemma merge_try_convert:
  assumes "convert_RGB pic = convert_RGB pic'"
  shows "merge_try bk (Inr pic) pts r f a = merge_try bk (Inr pic') pts r f a"
  by (simp add: merge_try_def assms split: sum.splits list.splits)

lemma merge_uploads_convert:
  assumes "convert_RGB pic = convert_RGB pic'"
  shows "merge (ev\<lparr>uploads := (uploads ev)(name \<mapsto> Inr pic)\<rparr>) body
       = merge (ev\<lparr>uploads := (uploads ev)(name \<mapsto> Inr pic')\<rparr>) body"
proof -
  have g: "\<And>u data. get_corridor_px (ev\<lparr>uploads := u\<rparr>) data = get_corridor_px ev data"
      "\<And>u data. get_outside_fade (ev\<lparr>uploads := u\<rparr>) data = get_outside_fade ev data"
      "\<And>u data. get_marker_alpha (ev\<lparr>uploads := u\<rparr>) data = get_marker_alpha ev data"
    by (simp_all add: get_corridor_px_def get_outside_fade_def get_marker_alpha_def)
  have "\<And>data. merge_fields (ev\<lparr>uploads := (uploads ev)(name \<mapsto> Inr pic)\<rparr>) data
       = merge_fields (ev\<lparr>uploads := (uploads ev)(name \<mapsto> Inr pic')\<rparr>) data"
    unfolding merge_fields_def g
    by (auto split: sum.splits json.splits option.splits simp add: merge_try_convert[OF assms])
  then show ?thesis
    by (simp add: merge_def split: option.splits json.splits)
qed

text \<open>
  C10. The image of a PNG reply has four channels per pixel (its type), and two stored
  \<^verbatim>\<open>RGBA\<close> pictures of one size that differ only in their alpha channel give the same
  reply to every request: the base is converted to \<^verbatim>\<open>RGB\<close> before anything else reads
  it.
\<close>

theorem C10_base_alpha_discarded:
  assumes "width im = width im'" and "height im = height im'"
    and "\<forall>x y. drop_alpha (px im x y) = drop_alpha (px im' x y)"
  shows "merge (ev\<lparr>uploads := (uploads ev)(name \<mapsto> Inr (Pic_RGBA im))\<rparr>) body
       = merge (ev\<lparr>uploads := (uploads ev)(name \<mapsto> Inr (Pic_RGBA im'))\<rparr>) body"
  using assms by (intro merge_uploads_convert) simp

subsection \<open>The view on the example requests\<close>

lemma example_env_simps:
  "str_to_int example_env = decimal"
  "str_to_float example_env = (\<lambda>s. map_option (\<lambda>n. Finite (of_int n)) (decimal s))"
  "uploads example_env ''a.png'' = Some (Inr grey)"
  "uploads example_env ''bad.png'' = Some (Inl UnidentifiedImageError)"
  "uploads example_env ''none.png'' = None"
  "pillow example_env = reference_backend"
  by (simp_all add: example_env_def)

lemma decimal_abc: "decimal ''abc'' = None"
  by (simp add: decimal_def)

lemma request_fields:
  "get_image_id (request name pts r) = JStr name"
  "get_points (request name pts r) = py_or (JArr pts) (JArr [])"
  "get_corridor_px ev (request name pts r) = int_of (str_to_int ev) (py_or r (JInt 0))"
  "get_outside_fade ev (request name pts r) = Inr (Finite 0.8)"
  "get_marker_alpha ev (request name pts r) = Inr (Finite 0.7)"
  "request name pts r \<noteq> []"
  by (simp_all add: get_image_id_def get_points_def get_corridor_px_def get_outside_fade_def
      get_marker_alpha_def request_def dict_get_def)

lemma request_with_fade_fields:
  "get_image_id (request_with_fade name pts r fade) = JStr name"
  "get_points (request_with_fade name pts r fade) = py_or (JArr pts) (JArr [])"
  "get_corridor_px ev (request_with_fade name pts r fade) = int_of (str_to_int ev) (py_or r (JInt 0))"
  "get_outside_fade ev (request_with_fade name pts r fade) =
     float_of (str_to_float ev) (if fade \<noteq> JNull then fade else JFloat 0.8)"
  "get_marker_alpha ev (request_with_fade name pts r fade) = Inr (Finite 0.7)"
  "request_with_fade name pts r fade \<noteq> []"
  by (simp_all add: get_image_id_def get_points_def get_corridor_px_def get_outside_fade_def
      get_marker_alpha_def request_def request_with_fade_def dict_get_def)

lemma points_of_two: "points_of [pt 40 100, pt 160 100] = Inr [(40, 100), (160, 100)]"
  by (simp add: pt_def point_of_def)

lemma float_range_20: "float_range 20"
  by (simp add: float_range_def)

lemma merge_good:
  "\<exists>out. merge example_env (Some (JObj (request ''a.png'' [pt 40 100, pt 160 100] (JInt 20))))
          = (Png out, all_stages) \<and> width out = 200 \<and> height out = 200"
  by (simp add: merge_JObj merge_fields_def request_fields example_env_simps py_or_def
      merge_try_def float_range_20 points_of_two render_eq all_stages_def grey_def new_img_def
      del: points_of.simps)

text \<open>
  C3 as stated fails: a \<^verbatim>\<open>corridor_px\<close> of \<^verbatim>\<open>"abc"\<close> ends in an unhandled
  \<^verbatim>\<open>ValueError\<close> (status 500), and a file that does not decode in the JSON error with
  status 500.
\<close>

theorem C3_counterexample:
  "merge example_env (Some (JObj (request ''a.png'' [pt 40 100, pt 160 100] (JStr ''abc''))))
     = (Unhandled ValueError, [])
   \<and> merge example_env (Some (JObj (request ''bad.png'' [pt 40 100, pt 160 100] (JInt 20))))
     = (Json_error 500 (Merge_failed UnidentifiedImageError), [])"
  by (simp add: merge_JObj merge_fields_def request_fields example_env_simps py_or_def
      merge_try_def decimal_abc)

lemma merge_renders:
  assumes "get_corridor_px ev data = Inr r" and "0 < r" and "float_range r"
    and "get_outside_fade ev data = Inr f" and "get_marker_alpha ev data = Inr a"
    and "get_image_id data = JStr name" and "name \<noteq> []"
    and "uploads ev name = Some (Inr pic)"
    and "get_points data = JArr entries" and "points_of entries = Inr (p0 # p1 # rest)"
  shows "\<exists>out. merge ev (Some (JObj data)) = (Png out, all_stages)
           \<and> fst (render (pillow ev) (convert_RGB pic) p0 p1 rest r (clamp01 f) (clamp01 a)) = Inr out
           \<and> (width out, height out) = size_of pic"
proof -
  have ne: "data \<noteq> []" using assms(6) by (rule get_image_id_JStr_nonempty)
  have len: "\<not> length entries < 2"
  proof
    assume "length entries < 2"
    then consider "entries = []" | p where "entries = [p]"
      by (cases entries; cases "tl entries") auto
    then show False using assms(10) by cases (auto split: sum.splits)
  qed
  then have t: "entries \<noteq> []" by auto
  have c: "(width (convert_RGB pic), height (convert_RGB pic)) = size_of pic"
    by (cases pic) (simp_all add: size_of_def)
  show ?thesis
    using assms ne len t c
    by (simp add: merge_JObj merge_fields_def merge_try_def render_eq all_stages_def
        del: points_of.simps)
qed



text \<open>
  The amended C3 on a \<^verbatim>\<open>corridor_px\<close> of \<^verbatim>\<open>"abc"\<close>, an \<^verbatim>\<open>outside_fade\<close> of \<^verbatim>\<open>[1]\<close> and a
  file that does not decode.
\<close>

theorem C3_witness:
  "get_corridor_px example_env (request ''a.png'' [pt 40 100, pt 160 100] (JStr ''abc'')) = Inl ValueError
   \<and> merge example_env (Some (JObj (request ''a.png'' [pt 40 100, pt 160 100] (JStr ''abc''))))
       = (Unhandled ValueError, [])
   \<and> get_outside_fade example_env
        (request_with_fade ''a.png'' [pt 40 100, pt 160 100] (JInt 20) (JArr [JInt 1])) = Inl TypeError
   \<and> merge example_env
        (Some (JObj (request_with_fade ''a.png'' [pt 40 100, pt 160 100] (JInt 20) (JArr [JInt 1]))))
       = (Unhandled TypeError, [])
   \<and> uploads example_env ''bad.png'' = Some (Inl UnidentifiedImageError)
   \<and> merge example_env (Some (JObj (request ''bad.png'' [pt 40 100, pt 160 100] (JInt 20))))
       = (Json_error 500 (Merge_failed UnidentifiedImageError), [])"
proof -
  have g1: "get_corridor_px example_env (request ''a.png'' [pt 40 100, pt 160 100] (JStr ''abc''))
              = Inl ValueError"
    by (simp add: request_fields example_env_simps py_or_def decimal_abc)
  have g2: "get_corridor_px example_env
              (request_with_fade ''a.png'' [pt 40 100, pt 160 100] (JInt 20) (JArr [JInt 1])) = Inr 20
          \<and> get_outside_fade example_env
              (request_with_fade ''a.png'' [pt 40 100, pt 160 100] (JInt 20) (JArr [JInt 1])) = Inl TypeError"
    by (simp add: request_with_fade_fields py_or_def)
  have g3: "get_corridor_px example_env (request ''bad.png'' [pt 40 100, pt 160 100] (JInt 20)) = Inr 20
          \<and> get_outside_fade example_env (request ''bad.png'' [pt 40 100, pt 160 100] (JInt 20))
              = Inr (Finite 0.8)
          \<and> get_marker_alpha example_env (request ''bad.png'' [pt 40 100, pt 160 100] (JInt 20))
              = Inr (Finite 0.7)
          \<and> 0 < (20 :: int) \<and> truthy (get_points (request ''bad.png'' [pt 40 100, pt 160 100] (JInt 20)))
          \<and> get_image_id (request ''bad.png'' [pt 40 100, pt 160 100] (JInt 20)) = JStr ''bad.png''
          \<and> ''bad.png'' \<noteq> [] \<and> uploads example_env ''bad.png'' = Some (Inl UnidentifiedImageError)"
    by (simp add: request_fields py_or_def example_env_simps)
  show ?thesis
    using C3_malformed_input_answers_500
        [of example_env "request ''a.png'' [pt 40 100, pt 160 100] (JStr ''abc'')" ValueError]
      C3_malformed_input_answers_500
        [of example_env "request_with_fade ''a.png'' [pt 40 100, pt 160 100] (JInt 20) (JArr [JInt 1])"
          TypeError 20]
      C3_malformed_input_answers_500
        [of example_env "request ''bad.png'' [pt 40 100, pt 160 100] (JInt 20)"
          UnidentifiedImageError 20 "Finite 0.8" "Finite 0.7" "''bad.png''"]
      g1 g2 g3
    by simp
qed

text \<open>
  C6 on the grey picture of 200 by 200 pixels: the reply is the PNG and its image is 200
  by 200.
\<close>

theorem C6_witness:
  "get_image_id (request ''a.png'' [pt 40 100, pt 160 100] (JInt 20)) = JStr ''a.png''
   \<and> uploads example_env ''a.png'' = Some (Inr grey)
   \<and> size_of grey = (200, 200)
   \<and> (\<exists>out. merge example_env (Some (JObj (request ''a.png'' [pt 40 100, pt 160 100] (JInt 20))))
               = (Png out, all_stages)
            \<and> (width out, height out) = (200, 200))"
proof -
  obtain out where m: "merge example_env (Some (JObj (request ''a.png'' [pt 40 100, pt 160 100] (JInt 20))))
      = (Png out, all_stages)"
    using merge_good by blast
  have i: "get_image_id (request ''a.png'' [pt 40 100, pt 160 100] (JInt 20)) = JStr ''a.png''"
    and u: "uploads example_env ''a.png'' = Some (Inr grey)"
    by (simp_all add: request_fields example_env_simps)
  have s: "size_of grey = (200, 200)"
    by (simp add: size_of_def grey_def new_img_def)
  show ?thesis
    using C6_output_has_base_size[OF m i u] m i u s by simp
qed


text \<open>
  C10 on two grey pictures, one opaque and one fully transparent.
\<close>

theorem C10_witness:
  "width (new_img 200 200 (100, 100, 100, 255 :: nat)) = width (new_img 200 200 (100, 100, 100, 0 :: nat))
   \<and> height (new_img 200 200 (100, 100, 100, 255 :: nat)) = height (new_img 200 200 (100, 100, 100, 0 :: nat))
   \<and> (\<forall>x y. drop_alpha (px (new_img 200 200 (100, 100, 100, 255)) x y)
            = drop_alpha (px (new_img 200 200 (100, 100, 100, 0)) x y))
   \<and> merge (example_env\<lparr>uploads := (uploads example_env)(''a.png'' \<mapsto>
                Inr (Pic_RGBA (new_img 200 200 (100, 100, 100, 255))))\<rparr>)
        (Some (JObj (request ''a.png'' [pt 40 100, pt 160 100] (JInt 20))))
     = merge (example_env\<lparr>uploads := (uploads example_env)(''a.png'' \<mapsto>
                Inr (Pic_RGBA (new_img 200 200 (100, 100, 100, 0))))\<rparr>)
        (Some (JObj (request ''a.png'' [pt 40 100, pt 160 100] (JInt 20))))"
proof -
  have h: "width (new_img 200 200 (100, 100, 100, 255 :: nat)) = width (new_img 200 200 (100, 100, 100, 0 :: nat))"
    "height (new_img 200 200 (100, 100, 100, 255 :: nat)) = height (new_img 200 200 (100, 100, 100, 0 :: nat))"
    "\<forall>x y. drop_alpha (px (new_img 200 200 (100, 100, 100, 255 :: nat)) x y)
            = drop_alpha (px (new_img 200 200 (100, 100, 100, 0 :: nat)) x y)"
    by (simp_all add: new_img_def drop_alpha_def)
  show ?thesis
    using C10_base_alpha_discarded[OF h, of example_env "''a.png''"
        "Some (JObj (request ''a.png'' [pt 40 100, pt 160 100] (JInt 20)))"] h
    by simp
qed

end
